theory Spec2Isabelle
  imports Complex_Main "HOL-Library.Multiset"
begin

section \<open>The custommetrics plugin: data model\<close>

text \<open>
  The development follows the label-keyed variant of the plugin: the source file with
  \<open>createMetricKey\<close>, \<open>getNumericValueFromHeaders\<close> and the capture of response headers.

  Four things of the Go program are not functions of its inputs or are library code, and
  each is made explicit in the model:
  \<^item> \<open>strconv.ParseFloat\<close> is the argument \<open>parseFloat\<close>, which returns \<open>Some v\<close> where Go
    returns \<open>(v, nil)\<close> and \<open>None\<close> where Go returns an error;
  \<^item> \<open>fmt.Sprintf("%.0f", v)\<close> is the argument \<open>formatValue\<close>;
  \<^item> the values of type \<open>float64\<close> are the type parameter \<open>'v\<close>, of which only \<open>0\<close>, \<open>1\<close>
    and \<open>+\<close> are used; the closed examples instantiate it with \<open>real\<close> on small
    integers, where \<open>float64\<close> arithmetic is exact;
  \<^item> the order in which \<open>for k, v := range m\<close> visits a Go map is chosen by the runtime at
    every loop: the sequence of visited entries is an argument of the function that
    holds the loop, and \<open>range_order m kvs\<close> says that \<open>kvs\<close> is a sequence the runtime may
    produce for \<open>m\<close> (every entry of \<open>m\<close> once, in any order).

  The mutex of the store serialises the calls of \<open>collectMetrics\<close> and
  \<open>renderPrometheusFormat\<close>; the model is the sequential behaviour of one call after
  another.
\<close>

definition MetricTypeCounter :: string where
  "MetricTypeCounter = ''counter''"

definition MetricTypeHistogram :: string where
  "MetricTypeHistogram = ''histogram''"

definition MetricTypeGauge :: string where
  "MetricTypeGauge = ''gauge''"

record Config =
  MetricHeaders :: "string list"
  MetricName :: string
  MetricType :: string
  MetricsPort :: int

definition CreateConfig :: Config where
  "CreateConfig =
     \<lparr>MetricHeaders = [], MetricName = ''plugin_custom_requests'',
      MetricType = MetricTypeCounter, MetricsPort = 8081\<rparr>"

record 'v Metric =
  Name :: string
  Type :: string
  Value :: 'v
  Labels :: "string \<rightharpoonup> string"

text \<open>\<open>MetricsStore.metrics\<close>: the map from series key to metric.\<close>

type_synonym 'v MetricsStore = "string \<rightharpoonup> 'v Metric"

text \<open>
  The plugin. The fields \<open>next\<close>, \<open>server\<close>, \<open>serverStop\<close> and \<open>serverStopped\<close> belong to
  the HTTP transport and are left out.
\<close>

record 'v CustomMetrics =
  metricHeaders :: "string list"
  metricName :: string
  metricType :: string
  metricsPort :: int
  name :: string
  store :: "'v MetricsStore"

text \<open>
  \<open>http.Header\<close> is \<open>map[string][]string\<close>; \<open>Get\<close> returns the first value stored under
  a name and the empty string when there is none. (Go canonicalises the name on every
  access; the model's maps are indexed by the names as the lookups spell them.)
\<close>

type_synonym Header = "string \<rightharpoonup> string list"

definition Get :: "Header \<Rightarrow> string \<Rightarrow> string" where
  "Get h key = (case h key of None \<Rightarrow> [] | Some [] \<Rightarrow> [] | Some (v # _) \<Rightarrow> v)"

text \<open>The sequences of entries that a \<open>range\<close> loop over the Go map \<open>m\<close> may visit.\<close>

definition range_order :: "('k \<rightharpoonup> 'a) \<Rightarrow> ('k \<times> 'a) list \<Rightarrow> bool" where
  "range_order m kvs \<longleftrightarrow> distinct (map fst kvs) \<and> map_of kvs = m"

section \<open>Construction\<close>

datatype error =
  MetricHeadersEmpty
  | PortInUse int
  | StartMetricsServerFailed error

text \<open>
  \<open>startMetricsServer\<close>: \<open>listen port\<close> says whether \<open>net.Listen\<close> succeeds on the port.
  The server goroutine is transport and not modelled.
\<close>

definition startMetricsServer :: "(int \<Rightarrow> bool) \<Rightarrow> 'v CustomMetrics \<Rightarrow> error option" where
  "startMetricsServer listen c =
     (if listen (metricsPort c) then None else Some (PortInUse (metricsPort c)))"

definition New :: "(int \<Rightarrow> bool) \<Rightarrow> Config \<Rightarrow> string \<Rightarrow> error + 'v CustomMetrics" where
  "New listen config nm =
     (if length (MetricHeaders config) = 0 then Inl MetricHeadersEmpty
      else
        let plugin = \<lparr>metricHeaders = MetricHeaders config, metricName = MetricName config,
                       metricType = MetricType config, metricsPort = MetricsPort config,
                       name = nm, store = Map.empty\<rparr>
        in (case startMetricsServer listen plugin of
              Some err \<Rightarrow> Inl (StartMetricsServerFailed err)
            | None \<Rightarrow> Inr plugin))"

section \<open>Observation\<close>

text \<open>The two scanning loops of \<open>getNumericValueFromHeaders\<close> are one loop, run twice.\<close>

fun firstNumeric :: "(string \<Rightarrow> 'v option) \<Rightarrow> Header \<Rightarrow> string list \<Rightarrow> 'v option" where
  "firstNumeric parseFloat h [] = None"
| "firstNumeric parseFloat h (headerName # rest) =
     (let headerValue = Get h headerName in
      if headerValue \<noteq> [] then
        (case parseFloat headerValue of
           Some parsedValue \<Rightarrow> Some parsedValue
         | None \<Rightarrow> firstNumeric parseFloat h rest)
      else firstNumeric parseFloat h rest)"

definition getNumericValueFromHeaders ::
  "(string \<Rightarrow> 'v option) \<Rightarrow> 'v::one CustomMetrics \<Rightarrow> Header \<Rightarrow> Header \<Rightarrow> 'v" where
  "getNumericValueFromHeaders parseFloat c req responseHeaders =
     (case firstNumeric parseFloat req (metricHeaders c) of
        Some parsedValue \<Rightarrow> parsedValue
      | None \<Rightarrow>
          (case firstNumeric parseFloat responseHeaders (metricHeaders c) of
             Some parsedValue \<Rightarrow> parsedValue
           | None \<Rightarrow> 1))"

text \<open>
  \<open>createMetricKey\<close>: the loop \<open>for k, v := range labels\<close> appends \<open>_k_v\<close> for every entry
  it visits; \<open>labelsRange\<close> is the sequence of entries the loop visits.
\<close>

definition createMetricKey :: "string \<Rightarrow> (string \<times> string) list \<Rightarrow> string" where
  "createMetricKey metricName' labelsRange =
     foldl (\<lambda>key (k, v). key @ ''_'' @ k @ ''_'' @ v) metricName' labelsRange"

text \<open>The first loop of \<open>collectMetrics\<close>: the label of every configured header.\<close>

definition headerLabel :: "Header \<Rightarrow> Header \<Rightarrow> string \<Rightarrow> string" where
  "headerLabel req responseHeaders headerName =
     (if Get req headerName \<noteq> [] then Get req headerName
      else if Get responseHeaders headerName \<noteq> [] then Get responseHeaders headerName
      else [])"

definition collectLabels :: "string list \<Rightarrow> Header \<Rightarrow> Header \<Rightarrow> (string \<rightharpoonup> string)" where
  "collectLabels headers req responseHeaders =
     foldl (\<lambda>labels headerName. labels(headerName \<mapsto> headerLabel req responseHeaders headerName))
       Map.empty headers"

text \<open>The key under which \<open>collectMetrics\<close> looks the series up.\<close>

definition metricKeyOf ::
  "'v CustomMetrics \<Rightarrow> Header \<Rightarrow> Header \<Rightarrow> (string \<times> string) list \<Rightarrow> string" where
  "metricKeyOf c req responseHeaders labelsRange =
     (if collectLabels (metricHeaders c) req responseHeaders \<noteq> Map.empty
      then createMetricKey (metricName c) labelsRange
      else metricName c)"

text \<open>The \<open>switch c.metricType\<close> of \<open>collectMetrics\<close>; it has no default case.\<close>

definition updateValue ::
  "(string \<Rightarrow> 'v option) \<Rightarrow> 'v::{one,plus} CustomMetrics \<Rightarrow> Header \<Rightarrow> Header \<Rightarrow>
   'v Metric \<Rightarrow> 'v Metric" where
  "updateValue parseFloat c req responseHeaders metric =
     (if metricType c = MetricTypeCounter then metric\<lparr>Value := Value metric + 1\<rparr>
      else if metricType c = MetricTypeHistogram \<or> metricType c = MetricTypeGauge
      then metric\<lparr>Value := getNumericValueFromHeaders parseFloat c req responseHeaders\<rparr>
      else metric)"

definition collectMetrics ::
  "(string \<Rightarrow> 'v option) \<Rightarrow> 'v::{zero,one,plus} CustomMetrics \<Rightarrow> Header \<Rightarrow> Header \<Rightarrow>
   (string \<times> string) list \<Rightarrow> 'v CustomMetrics" where
  "collectMetrics parseFloat c req responseHeaders labelsRange =
     (let labels = collectLabels (metricHeaders c) req responseHeaders;
          metricKey = metricKeyOf c req responseHeaders labelsRange;
          metric = (case store c metricKey of
                      None \<Rightarrow> \<lparr>Name = metricName c, Type = metricType c, Value = 0,
                                Labels = labels\<rparr>
                    | Some m \<Rightarrow> m)
      in c\<lparr>store := (store c)(metricKey \<mapsto> updateValue parseFloat c req responseHeaders metric)\<rparr>)"

text \<open>
  A run of the plugin: one \<open>collectMetrics\<close> call per exchange, each with the request
  headers, the response headers and the order in which that call's \<open>range\<close> loop
  visits the labels.
\<close>

fun observeAll ::
  "(string \<Rightarrow> 'v option) \<Rightarrow> 'v::{zero,one,plus} CustomMetrics \<Rightarrow>
   (Header \<times> Header \<times> (string \<times> string) list) list \<Rightarrow> 'v CustomMetrics" where
  "observeAll parseFloat c [] = c"
| "observeAll parseFloat c ((req, responseHeaders, labelsRange) # rest) =
     observeAll parseFloat (collectMetrics parseFloat c req responseHeaders labelsRange) rest"

section \<open>Rendering\<close>

definition newline :: string where
  "newline = [CHR 0x0A]"

definition dquote :: string where
  "dquote = [CHR 0x22]"

text \<open>\<open>strings.Join\<close>.\<close>

fun Join :: "string list \<Rightarrow> string \<Rightarrow> string" where
  "Join [] sep = []"
| "Join [x] sep = x"
| "Join (x # y # ys) sep = x @ sep @ Join (y # ys) sep"

definition labelPair :: "string \<times> string \<Rightarrow> string" where
  "labelPair kv = fst kv @ ''='' @ dquote @ snd kv @ dquote"

text \<open>
  The name of a series with its labels; \<open>labelsRange\<close> is the sequence of entries the
  loop \<open>for k, v := range metric.Labels\<close> visits.
\<close>

definition metricLine :: "'v Metric \<Rightarrow> (string \<times> string) list \<Rightarrow> string" where
  "metricLine metric labelsRange =
     (if Labels metric \<noteq> Map.empty
      then Name metric @ ''{'' @ Join (map labelPair labelsRange) '','' @ ''}''
      else Name metric)"

text \<open>
  The loop of \<open>renderPrometheusFormat\<close> with its two variables \<open>helpAdded\<close> and
  \<open>output\<close>. The list is what the outer \<open>range\<close> visits: the entries of the store, each
  with the order in which the inner loop visits its labels.
\<close>

fun renderLoop ::
  "('v \<Rightarrow> string) \<Rightarrow> bool \<Rightarrow> string \<Rightarrow>
   ((string \<times> 'v Metric) \<times> (string \<times> string) list) list \<Rightarrow> string" where
  "renderLoop formatValue helpAdded output [] = output"
| "renderLoop formatValue helpAdded output (((key, metric), labelsRange) # rest) =
     (let output1 =
            (if \<not> helpAdded
             then output @ ''# HELP '' @ Name metric @ '' Custom metric based on HTTP headers''
                    @ newline
                    @ ''# TYPE '' @ Name metric @ '' '' @ Type metric @ newline
             else output)
      in renderLoop formatValue True
           (output1 @ metricLine metric labelsRange @ '' '' @ formatValue (Value metric) @ newline)
           rest)"

definition renderPrometheusFormat ::
  "('v \<Rightarrow> string) \<Rightarrow> ((string \<times> 'v Metric) \<times> (string \<times> string) list) list \<Rightarrow> string" where
  "renderPrometheusFormat formatValue storeRange = renderLoop formatValue False [] storeRange"

text \<open>
  What the runtime may hand to one rendering of the store \<open>st\<close>: every entry of the store
  once, and with each an order of that metric's labels.
\<close>

definition render_order ::
  "'v MetricsStore \<Rightarrow> ((string \<times> 'v Metric) \<times> (string \<times> string) list) list \<Rightarrow> bool" where
  "render_order st storeRange \<longleftrightarrow>
     range_order st (map fst storeRange) \<and>
     list_all (\<lambda>((key, metric), labelsRange). range_order (Labels metric) labelsRange) storeRange"

section \<open>Properties stated about the plugin\<close>

text \<open>
  The invariant of the store: every series carries the configured name and kind, and
  its labels are exactly the configured header names.
\<close>

definition store_invariant :: "'v CustomMetrics \<Rightarrow> bool" where
  "store_invariant c \<longleftrightarrow>
     (\<forall>key metric. store c key = Some metric \<longrightarrow>
        Name metric = metricName c \<and> Type metric = metricType c \<and>
        dom (Labels metric) = set (metricHeaders c))"

text \<open>
  The gauge rule in the specification's words: of the values found under the configured
  headers, the request's first and then the response's, each in configured order, the
  first that parses; the sentinel 1 when none does.
\<close>

definition numericCandidates ::
  "(string \<Rightarrow> 'v option) \<Rightarrow> string list \<Rightarrow> Header \<Rightarrow> Header \<Rightarrow> 'v list" where
  "numericCandidates parseFloat headers req responseHeaders =
     List.map_filter (\<lambda>s. if s = [] then None else parseFloat s)
       (map (Get req) headers @ map (Get responseHeaders) headers)"

definition spec_gauge_value ::
  "(string \<Rightarrow> 'v option) \<Rightarrow> string list \<Rightarrow> Header \<Rightarrow> Header \<Rightarrow> 'v::one" where
  "spec_gauge_value parseFloat headers req responseHeaders =
     (case numericCandidates parseFloat headers req responseHeaders of
        [] \<Rightarrow> 1
      | v # _ \<Rightarrow> v)"

text \<open>A series without its recorded kind.\<close>

definition seriesData :: "'v Metric \<Rightarrow> string \<times> 'v \<times> (string \<rightharpoonup> string)" where
  "seriesData metric = (Name metric, Value metric, Labels metric)"

text \<open>The shape of the rendered text: the comment lines, then one line per visited series.\<close>

definition commentLines :: "string \<Rightarrow> string \<Rightarrow> string" where
  "commentLines metricName' metricType' =
     ''# HELP '' @ metricName' @ '' Custom metric based on HTTP headers'' @ newline
     @ ''# TYPE '' @ metricName' @ '' '' @ metricType' @ newline"

definition dataLine ::
  "('v \<Rightarrow> string) \<Rightarrow> (string \<times> 'v Metric) \<times> (string \<times> string) list \<Rightarrow> string" where
  "dataLine formatValue visit =
     metricLine (snd (fst visit)) (snd visit) @ '' '' @ formatValue (Value (snd (fst visit)))
     @ newline"

text \<open>
  The name part of a data line in the specification's words:
  \<open><name>{<label1>="<value1>",<label2>="<value2>",...}\<close>, the braces left out when there
  is no label.
\<close>

fun spec_label_list :: "(string \<times> string) list \<Rightarrow> string" where
  "spec_label_list [] = []"
| "spec_label_list (kv # rest) =
     fst kv @ ''='' @ dquote @ snd kv @ dquote
     @ concat (map (\<lambda>kv'. '','' @ fst kv' @ ''='' @ dquote @ snd kv' @ dquote) rest)"

definition spec_series_name :: "string \<Rightarrow> (string \<times> string) list \<Rightarrow> string" where
  "spec_series_name metricName' labelList =
     (if labelList = [] then metricName'
      else metricName' @ ''{'' @ spec_label_list labelList @ ''}'')"

section \<open>Example data\<close>

text \<open>
  The configuration and request of the repository's test \<open>TestMetrics\<close>, and the gauge
  scenario of the specification. \<open>parse_example\<close> is \<open>strconv.ParseFloat\<close> on the header
  values of the examples; \<open>format_example\<close> is \<open>%.0f\<close> on the values they produce.
\<close>

definition example_counter :: "real CustomMetrics" where
  "example_counter =
     \<lparr>metricHeaders = [''X-User-ID'', ''X-Request-Size''], metricName = ''test_counter'',
      metricType = MetricTypeCounter, metricsPort = 8082, name = ''metrics-plugin'',
      store = Map.empty\<rparr>"

definition example_request :: Header where
  "example_request = [''X-User-ID'' \<mapsto> [''user123''], ''X-Request-Size'' \<mapsto> [''1024'']]"

definition example_gauge :: "real CustomMetrics" where
  "example_gauge =
     \<lparr>metricHeaders = [''X-Size''], metricName = ''g'', metricType = MetricTypeGauge,
      metricsPort = 8081, name = ''gauge-plugin'', store = Map.empty\<rparr>"

definition parse_example :: "string \<Rightarrow> real option" where
  "parse_example = [''1024'' \<mapsto> 1024, ''1'' \<mapsto> 1, ''2'' \<mapsto> 2]"

definition format_example :: "real \<Rightarrow> string" where
  "format_example v = (if v = 1 then ''1'' else if v = 2 then ''2'' else ''1024'')"

text \<open>
  The two orders in which the runtime may visit the labels of \<open>example_request\<close>, and
  the keys that \<open>createMetricKey\<close> builds from them.
\<close>

definition labels_configured_order :: "(string \<times> string) list" where
  "labels_configured_order = [(''X-User-ID'', ''user123''), (''X-Request-Size'', ''1024'')]"

definition labels_other_order :: "(string \<times> string) list" where
  "labels_other_order = [(''X-Request-Size'', ''1024''), (''X-User-ID'', ''user123'')]"

text \<open>The series that one observation of \<open>example_request\<close> leaves in the store.\<close>

definition example_series :: "real Metric" where
  "example_series =
     \<lparr>Name = ''test_counter'', Type = ''counter'', Value = 1,
      Labels = [''X-User-ID'' \<mapsto> ''user123'', ''X-Request-Size'' \<mapsto> ''1024'']\<rparr>"

text \<open>
  One way to visit the store that two observations of \<open>example_request\<close> leave when
  their labels are visited in the two orders: it holds the series twice.
\<close>

definition duplicate_visit ::
  "((string \<times> real Metric) \<times> (string \<times> string) list) list" where
  "duplicate_visit =
     [((''test_counter_X-User-ID_user123_X-Request-Size_1024'', example_series),
       labels_configured_order),
      ((''test_counter_X-Request-Size_1024_X-User-ID_user123'', example_series),
       labels_configured_order)]"

text \<open>A configuration with a metric kind outside the three constants.\<close>

definition summary_config :: Config where
  "summary_config = CreateConfig\<lparr>MetricHeaders := [''X-User-ID''], MetricType := ''summary''\<rparr>"

section \<open>Basic facts about one observation\<close>

lemma foldl_upd_lookup:
  "foldl (\<lambda>labels h. labels(h \<mapsto> f h)) m0 hs k = (if k \<in> set hs then Some (f k) else m0 k)"
  by (induction hs arbitrary: m0) auto

lemma collectLabels_lookup:
  "collectLabels hs req resp k = (if k \<in> set hs then Some (headerLabel req resp k) else None)"
  unfolding collectLabels_def by (simp add: foldl_upd_lookup)

lemma dom_collectLabels: "dom (collectLabels hs req resp) = set hs"
  by (auto simp: collectLabels_lookup dom_def)

lemma store_collectMetrics:
  "store (collectMetrics pf c req resp lr) k =
     (if k = metricKeyOf c req resp lr
      then Some (updateValue pf c req resp
             (case store c k of
                None \<Rightarrow> \<lparr>Name = metricName c, Type = metricType c, Value = 0,
                          Labels = collectLabels (metricHeaders c) req resp\<rparr>
              | Some m \<Rightarrow> m))
      else store c k)"
  by (simp add: collectMetrics_def Let_def)

lemma config_collectMetrics:
  "metricHeaders (collectMetrics pf c req resp lr) = metricHeaders c"
  "metricName (collectMetrics pf c req resp lr) = metricName c"
  "metricType (collectMetrics pf c req resp lr) = metricType c"
  "metricsPort (collectMetrics pf c req resp lr) = metricsPort c"
  "name (collectMetrics pf c req resp lr) = name c"
  by (simp_all add: collectMetrics_def Let_def)

lemma updateValue_fields:
  "Name (updateValue pf c req resp m) = Name m"
  "Type (updateValue pf c req resp m) = Type m"
  "Labels (updateValue pf c req resp m) = Labels m"
  by (simp_all add: updateValue_def)

lemma kinds_distinct:
  "MetricTypeGauge \<noteq> MetricTypeCounter" "MetricTypeHistogram \<noteq> MetricTypeCounter"
  "MetricTypeGauge \<noteq> MetricTypeHistogram"
  by (simp_all add: MetricTypeGauge_def MetricTypeCounter_def MetricTypeHistogram_def)

lemma updateValue_gauge:
  assumes "metricType c = MetricTypeGauge \<or> metricType c = MetricTypeHistogram"
  shows "Value (updateValue pf c req resp m) = getNumericValueFromHeaders pf c req resp"
  using assms kinds_distinct by (auto simp: updateValue_def)

lemma updateValue_counter:
  assumes "metricType c = MetricTypeCounter"
  shows "Value (updateValue pf c req resp m) = Value m + 1"
  using assms by (simp add: updateValue_def)

text \<open>
  The counter rule by itself: whatever the headers of the exchange, the series under the
  derived key has its value raised by one (from 0 when the series is new).
\<close>

lemma counter_step:
  assumes "metricType c = MetricTypeCounter"
  shows "map_option Value (store (collectMetrics pf c req resp lr) (metricKeyOf c req resp lr)) =
         Some ((case store c (metricKeyOf c req resp lr) of None \<Rightarrow> 0 | Some m \<Rightarrow> Value m) + 1)"
  using assms by (simp add: store_collectMetrics updateValue_counter split: option.splits)

section \<open>The store invariant\<close>

lemma invariant_step:
  assumes "store_invariant c"
  shows "store_invariant (collectMetrics pf c req resp lr)"
  using assms unfolding store_invariant_def
  by (auto simp: store_collectMetrics config_collectMetrics updateValue_fields dom_collectLabels
      split: if_splits option.splits)

lemma config_observeAll:
  "metricHeaders (observeAll pf c xs) = metricHeaders c \<and>
   metricName (observeAll pf c xs) = metricName c \<and>
   metricType (observeAll pf c xs) = metricType c"
  by (induction pf c xs rule: observeAll.induct) (simp_all add: config_collectMetrics)

lemma invariant_observeAll:
  "store_invariant c \<Longrightarrow> store_invariant (observeAll pf c xs)"
  by (induction pf c xs rule: observeAll.induct) (simp_all add: invariant_step)

lemma New_store_empty: "New listen config nm = Inr c \<Longrightarrow> store c = Map.empty"
  by (auto simp: New_def Let_def split: if_splits option.splits)

text \<open>Every store that a constructed plugin reaches satisfies the invariant.\<close>

lemma invariant_reachable:
  "New listen config nm = Inr c \<Longrightarrow> store_invariant (observeAll pf c xs)"
  by (rule invariant_observeAll) (simp add: New_store_empty store_invariant_def)

text \<open>
  C9. Every call of \<open>collectMetrics\<close> keeps the invariant of the store: each stored metric
  has the configured metric name as its \<open>Name\<close>, the configured kind as its \<open>Type\<close>, and
  a \<open>Labels\<close> map whose keys are exactly the configured header names.
\<close>

theorem store_invariant_kept:
  assumes "store_invariant c"
  shows "store_invariant (collectMetrics parseFloat c req responseHeaders labelsRange)"
  using assms by (rule invariant_step)

theorem store_invariant_kept_witness:
  "store_invariant
     (example_counter\<lparr>store :=
        [''test_counter_X-User-ID_u_X-Request-Size_7'' \<mapsto>
           \<lparr>Name = ''test_counter'', Type = ''counter'', Value = 3,
            Labels = [''X-User-ID'' \<mapsto> ''u'', ''X-Request-Size'' \<mapsto> ''7'']\<rparr>]\<rparr>) \<and>
   store_invariant
     (collectMetrics parse_example
        (example_counter\<lparr>store :=
           [''test_counter_X-User-ID_u_X-Request-Size_7'' \<mapsto>
              \<lparr>Name = ''test_counter'', Type = ''counter'', Value = 3,
               Labels = [''X-User-ID'' \<mapsto> ''u'', ''X-Request-Size'' \<mapsto> ''7'']\<rparr>]\<rparr>)
        example_request Map.empty
        [(''X-User-ID'', ''user123''), (''X-Request-Size'', ''1024'')])"
proof -
  have inv: "store_invariant
     (example_counter\<lparr>store :=
        [''test_counter_X-User-ID_u_X-Request-Size_7'' \<mapsto>
           \<lparr>Name = ''test_counter'', Type = ''counter'', Value = 3,
            Labels = [''X-User-ID'' \<mapsto> ''u'', ''X-Request-Size'' \<mapsto> ''7'']\<rparr>]\<rparr>)"
    by (auto simp: store_invariant_def example_counter_def MetricTypeCounter_def
        split: if_splits)
  show ?thesis using inv store_invariant_kept [OF inv] by simp
qed

section \<open>The frame of one observation\<close>

text \<open>
  C10. One call of \<open>collectMetrics\<close> changes at most the series under the key it derives
  for the exchange: the entry of every other key, with its value, name, kind and labels,
  is as before, and no series is removed.
\<close>

theorem collectMetrics_frame:
  "(\<forall>key. key \<noteq> metricKeyOf c req responseHeaders labelsRange \<longrightarrow>
      store (collectMetrics parseFloat c req responseHeaders labelsRange) key = store c key) \<and>
   dom (store c) \<subseteq> dom (store (collectMetrics parseFloat c req responseHeaders labelsRange))"
  by (auto simp: store_collectMetrics)

theorem collectMetrics_frame_witness:
  "''test_counter_X-User-ID_u_X-Request-Size_7'' \<noteq>
     metricKeyOf
       (example_counter\<lparr>store :=
          [''test_counter_X-User-ID_u_X-Request-Size_7'' \<mapsto>
             \<lparr>Name = ''test_counter'', Type = ''counter'', Value = 3,
              Labels = [''X-User-ID'' \<mapsto> ''u'', ''X-Request-Size'' \<mapsto> ''7'']\<rparr>]\<rparr>)
       example_request Map.empty [(''X-User-ID'', ''user123''), (''X-Request-Size'', ''1024'')] \<and>
   store
     (collectMetrics parse_example
        (example_counter\<lparr>store :=
           [''test_counter_X-User-ID_u_X-Request-Size_7'' \<mapsto>
              \<lparr>Name = ''test_counter'', Type = ''counter'', Value = 3,
               Labels = [''X-User-ID'' \<mapsto> ''u'', ''X-Request-Size'' \<mapsto> ''7'']\<rparr>]\<rparr>)
        example_request Map.empty [(''X-User-ID'', ''user123''), (''X-Request-Size'', ''1024'')])
     ''test_counter_X-User-ID_u_X-Request-Size_7'' =
   Some \<lparr>Name = ''test_counter'', Type = ''counter'', Value = 3,
         Labels = [''X-User-ID'' \<mapsto> ''u'', ''X-Request-Size'' \<mapsto> ''7'']\<rparr>"
proof -
  let ?c = "example_counter\<lparr>store :=
          [''test_counter_X-User-ID_u_X-Request-Size_7'' \<mapsto>
             \<lparr>Name = ''test_counter'', Type = ''counter'', Value = 3::real,
              Labels = [''X-User-ID'' \<mapsto> ''u'', ''X-Request-Size'' \<mapsto> ''7'']\<rparr>]\<rparr>"
  let ?lr = "[(''X-User-ID'', ''user123''), (''X-Request-Size'', ''1024'')]"
  have key: "metricKeyOf ?c example_request Map.empty ?lr =
               ''test_counter_X-User-ID_user123_X-Request-Size_1024''"
    by (simp add: metricKeyOf_def createMetricKey_def example_counter_def collectLabels_def)
  have other: "''test_counter_X-User-ID_u_X-Request-Size_7'' \<noteq>
                 metricKeyOf ?c example_request Map.empty ?lr"
    unfolding key by simp
  from collectMetrics_frame [of ?c example_request Map.empty ?lr parse_example] other
  have "store (collectMetrics parse_example ?c example_request Map.empty ?lr)
          ''test_counter_X-User-ID_u_X-Request-Size_7'' =
        store ?c ''test_counter_X-User-ID_u_X-Request-Size_7''"
    by blast
  with other show ?thesis by simp
qed

section \<open>The gauge and histogram rule\<close>

lemma map_filter_app:
  "List.map_filter f (xs @ ys) = List.map_filter f xs @ List.map_filter f ys"
  by (simp add: List.map_filter_def)

lemma firstNumeric_map_filter:
  "firstNumeric pf h hs =
     (case List.map_filter (\<lambda>s. if s = [] then None else pf s) (map (Get h) hs) of
        [] \<Rightarrow> None | v # _ \<Rightarrow> Some v)"
  by (induction hs) (auto simp: Let_def split: option.splits)

lemma getNumeric_spec:
  "getNumericValueFromHeaders pf c req resp = spec_gauge_value pf (metricHeaders c) req resp"
  by (simp add: getNumericValueFromHeaders_def spec_gauge_value_def numericCandidates_def
      firstNumeric_map_filter map_filter_app split: list.splits)

lemma gauge_step:
  assumes "metricType c = MetricTypeGauge \<or> metricType c = MetricTypeHistogram"
  shows "map_option Value (store (collectMetrics pf c req resp lr) (metricKeyOf c req resp lr)) =
         Some (getNumericValueFromHeaders pf c req resp)"
  using assms by (simp add: store_collectMetrics updateValue_gauge)

text \<open>
  C3. For a gauge or histogram definition, \<open>collectMetrics\<close> sets the value of the series
  it derives to the first value that \<open>ParseFloat\<close> accepts among the values found under
  the configured headers, scanning the request's headers in configured order first and
  the response's headers in configured order after them; when none is accepted the value
  is the sentinel 1. (The witness is the scenario \<open>X-Size: 1024\<close>, whose series gets the
  value 1024.)
\<close>

theorem gauge_value_first_numeric:
  assumes "metricType c = MetricTypeGauge \<or> metricType c = MetricTypeHistogram"
  shows "map_option Value
           (store (collectMetrics parseFloat c req responseHeaders labelsRange)
              (metricKeyOf c req responseHeaders labelsRange)) =
         Some (spec_gauge_value parseFloat (metricHeaders c) req responseHeaders)"
  using assms by (simp add: gauge_step getNumeric_spec)

theorem gauge_value_first_numeric_witness:
  "(metricType example_gauge = MetricTypeGauge \<or> metricType example_gauge = MetricTypeHistogram) \<and>
   metricKeyOf example_gauge [''X-Size'' \<mapsto> [''1024'']] Map.empty [(''X-Size'', ''1024'')] =
     ''g_X-Size_1024'' \<and>
   map_option Value
     (store (collectMetrics parse_example example_gauge [''X-Size'' \<mapsto> [''1024'']] Map.empty
               [(''X-Size'', ''1024'')])
        ''g_X-Size_1024'') = Some 1024"
proof -
  have kind: "metricType example_gauge = MetricTypeGauge \<or>
              metricType example_gauge = MetricTypeHistogram"
    by (simp add: example_gauge_def)
  have key: "metricKeyOf example_gauge [''X-Size'' \<mapsto> [''1024'']] Map.empty
               [(''X-Size'', ''1024'')] = ''g_X-Size_1024''"
    by (simp add: metricKeyOf_def createMetricKey_def example_gauge_def collectLabels_def)
  have spec: "spec_gauge_value parse_example (metricHeaders example_gauge)
                [''X-Size'' \<mapsto> [''1024'']] Map.empty = 1024"
    by (simp add: spec_gauge_value_def numericCandidates_def example_gauge_def Get_def
        parse_example_def List.map_filter_def)
  from gauge_value_first_numeric [OF kind, of parse_example "[''X-Size'' \<mapsto> [''1024'']]"
      Map.empty "[(''X-Size'', ''1024'')]"]
  show ?thesis using kind key spec by simp
qed

section \<open>Exchanges without any configured header\<close>

lemma firstNumeric_absent:
  assumes "\<forall>h \<in> set hs. Get hdr h = []"
  shows "firstNumeric pf hdr hs = None"
  using assms by (induction hs) simp_all

lemma getNumeric_absent:
  assumes "\<forall>h \<in> set (metricHeaders c). Get req h = [] \<and> Get resp h = []"
  shows "getNumericValueFromHeaders pf c req resp = 1"
  using assms by (simp add: getNumericValueFromHeaders_def firstNumeric_absent)

lemma collectLabels_absent:
  assumes "\<forall>h \<in> set hs. Get req h = [] \<and> Get resp h = []"
  shows "collectLabels hs req resp = (\<lambda>h. if h \<in> set hs then Some [] else None)"
  using assms by (auto simp: fun_eq_iff collectLabels_lookup headerLabel_def)

lemma dom_store_collectMetrics:
  "dom (store (collectMetrics pf c req resp lr)) =
     insert (metricKeyOf c req resp lr) (dom (store c))"
  by (auto simp: store_collectMetrics split: if_splits)

text \<open>
  C7. An exchange in which no configured header is present, neither in the request nor
  in the response, still yields its series: the call adds no other key to the store, a
  series it creates has the configured name and kind and maps every configured header
  name to the empty string, and under a gauge or histogram definition the value of the
  series is 1. On the store of a new plugin this is the only series.
\<close>

theorem missing_headers_default:
  assumes "\<forall>h \<in> set (metricHeaders c). Get req h = [] \<and> Get responseHeaders h = []"
  shows "\<exists>metric.
           store (collectMetrics parseFloat c req responseHeaders labelsRange)
             (metricKeyOf c req responseHeaders labelsRange) = Some metric \<and>
           dom (store (collectMetrics parseFloat c req responseHeaders labelsRange)) =
             insert (metricKeyOf c req responseHeaders labelsRange) (dom (store c)) \<and>
           (store c (metricKeyOf c req responseHeaders labelsRange) = None \<longrightarrow>
              Name metric = metricName c \<and> Type metric = metricType c \<and>
              Labels metric = (\<lambda>h. if h \<in> set (metricHeaders c) then Some [] else None)) \<and>
           (metricType c = MetricTypeGauge \<or> metricType c = MetricTypeHistogram \<longrightarrow>
              Value metric = 1)"
  using assms
  by (simp add: store_collectMetrics dom_store_collectMetrics updateValue_fields
      updateValue_gauge getNumeric_absent collectLabels_absent)

theorem missing_headers_default_witness:
  "Get Map.empty ''X-Size'' = [] \<and>
   dom (store (collectMetrics parse_example example_gauge Map.empty Map.empty [(''X-Size'', [])])) =
     {''g_X-Size_''} \<and>
   map_option Labels
     (store (collectMetrics parse_example example_gauge Map.empty Map.empty [(''X-Size'', [])])
        ''g_X-Size_'') = Some [''X-Size'' \<mapsto> []] \<and>
   map_option Value
     (store (collectMetrics parse_example example_gauge Map.empty Map.empty [(''X-Size'', [])])
        ''g_X-Size_'') = Some 1"
proof -
  have absent: "\<forall>h \<in> set (metricHeaders example_gauge). Get Map.empty h = [] \<and> Get Map.empty h = []"
    by (simp add: Get_def)
  have key: "metricKeyOf example_gauge Map.empty Map.empty [(''X-Size'', [])] = ''g_X-Size_''"
    by (simp add: metricKeyOf_def createMetricKey_def example_gauge_def collectLabels_def)
  have fresh: "store example_gauge ''g_X-Size_'' = None" "dom (store example_gauge) = {}"
    by (simp_all add: example_gauge_def)
  have kind: "metricType example_gauge = MetricTypeGauge"
    by (simp add: example_gauge_def)
  have labels: "(\<lambda>h. if h \<in> set (metricHeaders example_gauge) then Some [] else None) =
                [''X-Size'' \<mapsto> []]"
    by (simp add: fun_eq_iff example_gauge_def)
  from missing_headers_default [OF absent, of parse_example "[(''X-Size'', [])]"]
  obtain metric where
    all: "store (collectMetrics parse_example example_gauge Map.empty Map.empty [(''X-Size'', [])])
          ''g_X-Size_'' = Some metric \<and>
     dom (store (collectMetrics parse_example example_gauge Map.empty Map.empty
                  [(''X-Size'', [])])) = insert ''g_X-Size_'' (dom (store example_gauge)) \<and>
     (store example_gauge ''g_X-Size_'' = None \<longrightarrow>
              Name metric = metricName example_gauge \<and> Type metric = metricType example_gauge \<and>
              Labels metric = (\<lambda>h. if h \<in> set (metricHeaders example_gauge) then Some [] else None)) \<and>
     (metricType example_gauge = MetricTypeGauge \<or>
            metricType example_gauge = MetricTypeHistogram \<longrightarrow> Value metric = 1)"
    unfolding key ..
  have "Labels metric = [''X-Size'' \<mapsto> []]"
    using all fresh(1) labels by metis
  moreover have "Value metric = 1"
    using all kind by metis
  moreover have "Get Map.empty ''X-Size'' = []"
    by (simp add: Get_def)
  moreover have "dom (store (collectMetrics parse_example example_gauge Map.empty Map.empty
                  [(''X-Size'', [])])) = {''g_X-Size_''}"
    using all fresh(2) by metis
  moreover have "store (collectMetrics parse_example example_gauge Map.empty Map.empty [(''X-Size'', [])])
          ''g_X-Size_'' = Some metric"
    using all by (rule conjunct1)
  ultimately show ?thesis
    by (simp only: option.map simp_thms)
qed

section \<open>Histogram and gauge\<close>

lemma metricKeyOf_cong:
  assumes "metricHeaders c1 = metricHeaders c2" "metricName c1 = metricName c2"
  shows "metricKeyOf c1 req resp lr = metricKeyOf c2 req resp lr"
  using assms by (simp add: metricKeyOf_def)

lemma getNumeric_cong:
  assumes "metricHeaders c1 = metricHeaders c2"
  shows "getNumericValueFromHeaders pf c1 req resp = getNumericValueFromHeaders pf c2 req resp"
  unfolding getNumericValueFromHeaders_def assms ..

lemma updateValue_last_value:
  assumes "metricType c = MetricTypeGauge \<or> metricType c = MetricTypeHistogram"
  shows "updateValue pf c req resp m = m\<lparr>Value := getNumericValueFromHeaders pf c req resp\<rparr>"
  using assms kinds_distinct by (auto simp: updateValue_def)

lemma hist_gauge_step:
  assumes "metricHeaders ch = metricHeaders cg" "metricName ch = metricName cg"
    and "metricType ch = MetricTypeHistogram" "metricType cg = MetricTypeGauge"
    and "\<And>k. map_option seriesData (store ch k) = map_option seriesData (store cg k)"
  shows "map_option seriesData (store (collectMetrics pf ch req resp lr) k) =
         map_option seriesData (store (collectMetrics pf cg req resp lr) k)"
proof -
  have key: "metricKeyOf ch req resp lr = metricKeyOf cg req resp lr"
    using assms(1,2) by (rule metricKeyOf_cong)
  have val: "getNumericValueFromHeaders pf ch req resp = getNumericValueFromHeaders pf cg req resp"
    using assms(1) by (rule getNumeric_cong)
  have same: "map_option seriesData (store ch k) = map_option seriesData (store cg k)"
    by (rule assms(5))
  show ?thesis
    using same assms(1,2) val
    by (auto simp: store_collectMetrics key updateValue_last_value assms(3,4) seriesData_def
        split: option.splits)
qed

lemma hist_gauge_run:
  assumes "metricHeaders ch = metricHeaders cg" "metricName ch = metricName cg"
    and "metricType ch = MetricTypeHistogram" "metricType cg = MetricTypeGauge"
    and "\<And>k. map_option seriesData (store ch k) = map_option seriesData (store cg k)"
  shows "map_option seriesData (store (observeAll pf ch xs) k) =
         map_option seriesData (store (observeAll pf cg xs) k)"
  using assms
proof (induction xs arbitrary: ch cg k)
  case Nil
  then show ?case by simp
next
  case (Cons x xs)
  obtain req resp lr where x: "x = (req, resp, lr)"
    by (cases x) auto
  have "map_option seriesData (store (observeAll pf (collectMetrics pf ch req resp lr) xs) k) =
        map_option seriesData (store (observeAll pf (collectMetrics pf cg req resp lr) xs) k)"
  proof (rule Cons.IH)
    fix k'
    show "map_option seriesData (store (collectMetrics pf ch req resp lr) k') =
          map_option seriesData (store (collectMetrics pf cg req resp lr) k')"
      using Cons.prems by (rule hist_gauge_step)
  qed (simp_all add: config_collectMetrics Cons.prems)
  then show ?case by (simp add: x)
qed

lemma hist_gauge_kind_step:
  assumes "metricHeaders ch = metricHeaders cg" "metricName ch = metricName cg"
    and "metricType ch = MetricTypeHistogram" "metricType cg = MetricTypeGauge"
    and "\<And>k. store ch k = map_option (\<lambda>m. m\<lparr>Type := MetricTypeHistogram\<rparr>) (store cg k)"
  shows "store (collectMetrics pf ch req resp lr) k =
         map_option (\<lambda>m. m\<lparr>Type := MetricTypeHistogram\<rparr>) (store (collectMetrics pf cg req resp lr) k)"
proof -
  have key: "metricKeyOf ch req resp lr = metricKeyOf cg req resp lr"
    using assms(1,2) by (rule metricKeyOf_cong)
  have val: "getNumericValueFromHeaders pf ch req resp = getNumericValueFromHeaders pf cg req resp"
    using assms(1) by (rule getNumeric_cong)
  have same: "store ch k = map_option (\<lambda>m. m\<lparr>Type := MetricTypeHistogram\<rparr>) (store cg k)"
    by (rule assms(5))
  show ?thesis
    using same assms(1,2) val
    by (auto simp: store_collectMetrics key updateValue_last_value assms(3,4)
        split: option.splits)
qed

lemma hist_gauge_kind_run:
  assumes "metricHeaders ch = metricHeaders cg" "metricName ch = metricName cg"
    and "metricType ch = MetricTypeHistogram" "metricType cg = MetricTypeGauge"
    and "\<And>k. store ch k = map_option (\<lambda>m. m\<lparr>Type := MetricTypeHistogram\<rparr>) (store cg k)"
  shows "store (observeAll pf ch xs) k =
         map_option (\<lambda>m. m\<lparr>Type := MetricTypeHistogram\<rparr>) (store (observeAll pf cg xs) k)"
  using assms
proof (induction xs arbitrary: ch cg k)
  case Nil
  then show ?case by simp
next
  case (Cons x xs)
  obtain req resp lr where x: "x = (req, resp, lr)"
    by (cases x) auto
  have "store (observeAll pf (collectMetrics pf ch req resp lr) xs) k =
        map_option (\<lambda>m. m\<lparr>Type := MetricTypeHistogram\<rparr>)
          (store (observeAll pf (collectMetrics pf cg req resp lr) xs) k)"
  proof (rule Cons.IH)
    fix k'
    show "store (collectMetrics pf ch req resp lr) k' =
          map_option (\<lambda>m. m\<lparr>Type := MetricTypeHistogram\<rparr>)
            (store (collectMetrics pf cg req resp lr) k')"
      using Cons.prems by (rule hist_gauge_kind_step)
  qed (simp_all add: config_collectMetrics Cons.prems)
  then show ?case by (simp add: x)
qed

text \<open>
  C8. The histogram kind is updated by the gauge rule. Run on the same exchanges (with
  the same iteration orders) from the same store, a histogram definition and a gauge
  definition hold, under every key, series with the same name, value and labels; run
  from the empty store, the histogram run's store is the gauge run's with the recorded
  kind replaced. There are no buckets: after a histogram observation the value of the
  series is the number that the gauge rule reads from that exchange, whatever the value
  was before.
\<close>

theorem histogram_as_gauge:
  "map_option seriesData
     (store (observeAll parseFloat (c\<lparr>metricType := MetricTypeHistogram\<rparr>) exchanges) key) =
   map_option seriesData
     (store (observeAll parseFloat (c\<lparr>metricType := MetricTypeGauge\<rparr>) exchanges) key) \<and>
   store (observeAll parseFloat (c\<lparr>metricType := MetricTypeHistogram, store := Map.empty\<rparr>)
            exchanges) key =
   map_option (\<lambda>m. m\<lparr>Type := MetricTypeHistogram\<rparr>)
     (store (observeAll parseFloat (c\<lparr>metricType := MetricTypeGauge, store := Map.empty\<rparr>)
               exchanges) key) \<and>
   map_option Value
     (store (collectMetrics parseFloat (c\<lparr>metricType := MetricTypeHistogram\<rparr>) req
               responseHeaders labelsRange)
        (metricKeyOf c req responseHeaders labelsRange)) =
   Some (getNumericValueFromHeaders parseFloat (c\<lparr>metricType := MetricTypeGauge\<rparr>) req
           responseHeaders)"
proof (intro conjI)
  show "map_option seriesData
     (store (observeAll parseFloat (c\<lparr>metricType := MetricTypeHistogram\<rparr>) exchanges) key) =
   map_option seriesData
     (store (observeAll parseFloat (c\<lparr>metricType := MetricTypeGauge\<rparr>) exchanges) key)"
    by (rule hist_gauge_run) simp_all
  show "store (observeAll parseFloat (c\<lparr>metricType := MetricTypeHistogram, store := Map.empty\<rparr>)
            exchanges) key =
   map_option (\<lambda>m. m\<lparr>Type := MetricTypeHistogram\<rparr>)
     (store (observeAll parseFloat (c\<lparr>metricType := MetricTypeGauge, store := Map.empty\<rparr>)
               exchanges) key)"
    by (rule hist_gauge_kind_run) simp_all
  have "metricKeyOf c req responseHeaders labelsRange =
        metricKeyOf (c\<lparr>metricType := MetricTypeHistogram\<rparr>) req responseHeaders labelsRange"
    by (rule metricKeyOf_cong) simp_all
  moreover have "getNumericValueFromHeaders parseFloat (c\<lparr>metricType := MetricTypeGauge\<rparr>) req
           responseHeaders =
        getNumericValueFromHeaders parseFloat (c\<lparr>metricType := MetricTypeHistogram\<rparr>) req
           responseHeaders"
    by (rule getNumeric_cong) simp
  ultimately show "map_option Value
     (store (collectMetrics parseFloat (c\<lparr>metricType := MetricTypeHistogram\<rparr>) req
               responseHeaders labelsRange)
        (metricKeyOf c req responseHeaders labelsRange)) =
   Some (getNumericValueFromHeaders parseFloat (c\<lparr>metricType := MetricTypeGauge\<rparr>) req
           responseHeaders)"
    by (simp add: gauge_step)
qed

section \<open>Orders of map iteration\<close>

text \<open>
  Every iteration of a map visits each entry once: two iterations of one map are
  permutations of each other, and they are equal when the map has at most one entry.
\<close>

lemma range_order_length:
  assumes "range_order m kvs"
  shows "length kvs = card (dom m)"
proof -
  have "card (dom m) = card (set (map fst kvs))"
    using assms by (auto simp: range_order_def dom_map_of_conv_image_fst)
  also have "\<dots> = length (map fst kvs)"
    using assms unfolding range_order_def by (intro distinct_card) simp
  finally show ?thesis by simp
qed

lemma range_order_set:
  assumes "range_order m kvs"
  shows "set kvs = Map.graph m"
  using assms by (auto simp: range_order_def Map.graph_def)

lemma range_order_Nil: "range_order m [] \<longleftrightarrow> m = Map.empty"
  by (auto simp: range_order_def)

lemma range_order_ran:
  assumes "range_order m kvs" "kv \<in> set kvs"
  shows "snd kv \<in> ran m"
  using assms by (cases kv) (auto simp: range_order_def ran_def)

lemma range_order_distinct:
  assumes "range_order m kvs"
  shows "distinct kvs"
  using assms by (auto simp: range_order_def distinct_map)

lemma range_order_mset:
  assumes "range_order m kvs1" "range_order m kvs2"
  shows "mset kvs1 = mset kvs2"
proof -
  have "set kvs1 = set kvs2"
    using assms by (simp add: range_order_set)
  moreover have "distinct kvs1" "distinct kvs2"
    using assms by (auto intro: range_order_distinct)
  ultimately show ?thesis
    by (simp add: set_eq_iff_mset_eq_distinct)
qed

lemma range_order_at_most_one:
  assumes "range_order m kvs1" "range_order m kvs2" "card (dom m) \<le> 1"
  shows "kvs1 = kvs2"
proof -
  have len: "length kvs1 \<le> 1" "length kvs2 \<le> 1"
    using assms by (simp_all add: range_order_length)
  have "set kvs1 = set kvs2"
    using assms by (simp add: range_order_set)
  with len show ?thesis
    by (cases kvs1; cases kvs2) auto
qed

lemma range_order_singleton:
  assumes "range_order [k \<mapsto> v] kvs"
  shows "kvs = [(k, v)]"
proof -
  have "range_order [k \<mapsto> v] [(k, v)]"
    by (simp add: range_order_def)
  with assms show ?thesis
    by (rule range_order_at_most_one) simp
qed

section \<open>The series key and the order of map iteration\<close>

lemma range_order_example:
  "range_order (collectLabels (metricHeaders example_counter) example_request Map.empty)
     labels_configured_order"
  "range_order (collectLabels (metricHeaders example_counter) example_request Map.empty)
     labels_other_order"
  by (simp_all add: range_order_def collectLabels_def headerLabel_def Get_def fun_eq_iff
      example_counter_def example_request_def labels_configured_order_def
      labels_other_order_def)

lemma labels_example:
  "collectLabels (metricHeaders example_counter) example_request Map.empty =
     [''X-User-ID'' \<mapsto> ''user123'', ''X-Request-Size'' \<mapsto> ''1024'']"
  by (simp add: collectLabels_def headerLabel_def Get_def example_counter_def
      example_request_def)

lemma metricKeyOf_example:
  assumes "metricHeaders c = metricHeaders example_counter" "metricName c = ''test_counter''"
  shows "metricKeyOf c example_request Map.empty labels_configured_order =
           ''test_counter_X-User-ID_user123_X-Request-Size_1024''"
    and "metricKeyOf c example_request Map.empty labels_other_order =
           ''test_counter_X-Request-Size_1024_X-User-ID_user123''"
  using assms
  by (simp_all add: metricKeyOf_def createMetricKey_def labels_example
      labels_configured_order_def labels_other_order_def)

text \<open>
  With one configured header the label map has one entry, and the key is the metric name
  followed by \<open>_header_value\<close>, whatever the runtime does.
\<close>

lemma single_header_key:
  assumes "metricHeaders c = [h]"
    and "range_order (collectLabels (metricHeaders c) req resp) lr"
  shows "metricKeyOf c req resp lr = metricName c @ ''_'' @ h @ ''_'' @ headerLabel req resp h"
proof -
  have labels: "collectLabels (metricHeaders c) req resp = [h \<mapsto> headerLabel req resp h]"
    by (simp add: assms(1) collectLabels_def)
  with assms(2) have "lr = [(h, headerLabel req resp h)]"
    by (simp add: range_order_singleton)
  then show ?thesis
    by (simp add: metricKeyOf_def labels createMetricKey_def)
qed

text \<open>
  C1. The claim is that the series key is a function of the metric name and the label
  mapping, with the labels in configured header order. \<open>createMetricKey\<close> appends the
  labels in the order in which the runtime visits the map: for the labels of the request
  of \<open>TestMetrics\<close> both orders below are iterations of the same mapping, and they give
  two keys.
\<close>

theorem createMetricKey_follows_range_order:
  "range_order (collectLabels (metricHeaders example_counter) example_request Map.empty)
     labels_configured_order \<and>
   range_order (collectLabels (metricHeaders example_counter) example_request Map.empty)
     labels_other_order \<and>
   createMetricKey ''test_counter'' labels_configured_order =
     ''test_counter_X-User-ID_user123_X-Request-Size_1024'' \<and>
   createMetricKey ''test_counter'' labels_other_order =
     ''test_counter_X-Request-Size_1024_X-User-ID_user123''"
  using range_order_example
  by (simp add: createMetricKey_def labels_configured_order_def labels_other_order_def)

lemma increments_from:
  "((\<lambda>v. v + 1) ^^ Suc n) a = ((\<lambda>v. v + 1) ^^ n) (a + 1)"
  by (induction n) simp_all

text \<open>
  Observations that derive one key count up the series under that key: after them its
  value is the starting value (0 for a new series) incremented once per observation.
\<close>

lemma counter_counts_same_key:
  assumes "metricType c = MetricTypeCounter"
    and "\<forall>x \<in> set xs. metricKeyOf c (fst x) (fst (snd x)) (snd (snd x)) = key"
    and "xs \<noteq> []"
  shows "map_option Value (store (observeAll pf c xs) key) =
         Some (((\<lambda>v. v + 1) ^^ length xs) (case store c key of None \<Rightarrow> 0 | Some m \<Rightarrow> Value m))"
  using assms
proof (induction xs arbitrary: c)
  case Nil
  then show ?case by simp
next
  case (Cons x xs)
  obtain req resp lr where x: "x = (req, resp, lr)"
    by (cases x) auto
  let ?c' = "collectMetrics pf c req resp lr"
  have key: "metricKeyOf c req resp lr = key"
    using Cons.prems(2) by (simp add: x)
  have first: "map_option Value (store ?c' key) =
               Some ((case store c key of None \<Rightarrow> 0 | Some m \<Rightarrow> Value m) + 1)"
    using counter_step [OF Cons.prems(1), of pf req resp lr] by (simp add: key)
  show ?case
  proof (cases "xs = []")
    case True
    then show ?thesis using first by (simp add: x)
  next
    case False
    have keys: "\<forall>y \<in> set xs. metricKeyOf ?c' (fst y) (fst (snd y)) (snd (snd y)) = key"
    proof
      fix y assume "y \<in> set xs"
      then have "metricKeyOf c (fst y) (fst (snd y)) (snd (snd y)) = key"
        using Cons.prems(2) by simp
      moreover have "metricKeyOf ?c' (fst y) (fst (snd y)) (snd (snd y)) =
                     metricKeyOf c (fst y) (fst (snd y)) (snd (snd y))"
        by (rule metricKeyOf_cong) (simp_all add: config_collectMetrics)
      ultimately show "metricKeyOf ?c' (fst y) (fst (snd y)) (snd (snd y)) = key"
        by simp
    qed
    have kind: "metricType ?c' = MetricTypeCounter"
      by (simp add: config_collectMetrics Cons.prems(1))
    from first obtain m where m: "store ?c' key = Some m"
      "Value m = (case store c key of None \<Rightarrow> 0 | Some m \<Rightarrow> Value m) + 1"
      by auto
    from Cons.IH [OF kind keys False]
    have "map_option Value (store (observeAll pf ?c' xs) key) =
          Some (((\<lambda>v. v + 1) ^^ length xs) (Value m))"
      by (simp add: m(1))
    then show ?thesis
      by (simp add: x m(2) increments_from del: funpow.simps)
  qed
qed

lemma store_after_two_observations:
  "store (observeAll parse_example example_counter
            [(example_request, Map.empty, labels_configured_order),
             (example_request, Map.empty, labels_other_order)]) =
     [''test_counter_X-User-ID_user123_X-Request-Size_1024'' \<mapsto> example_series,
      ''test_counter_X-Request-Size_1024_X-User-ID_user123'' \<mapsto> example_series]"
proof -
  let ?k1 = "''test_counter_X-User-ID_user123_X-Request-Size_1024''"
  let ?k2 = "''test_counter_X-Request-Size_1024_X-User-ID_user123''"
  let ?c1 = "example_counter\<lparr>store := [?k1 \<mapsto> example_series]\<rparr>"
  have config: "metricType example_counter = MetricTypeCounter"
    "metricName example_counter = ''test_counter''" "store example_counter = Map.empty"
    by (simp_all add: example_counter_def)
  have new: "updateValue parse_example c example_request Map.empty
               \<lparr>Name = ''test_counter'', Type = MetricTypeCounter, Value = 0,
                Labels = [''X-User-ID'' \<mapsto> ''user123'', ''X-Request-Size'' \<mapsto> ''1024'']\<rparr> =
             example_series" if "metricType c = MetricTypeCounter" for c
    using that by (simp add: updateValue_def example_series_def MetricTypeCounter_def)
  have keys: "?k2 \<noteq> ?k1"
    by simp
  have key1: "metricKeyOf example_counter example_request Map.empty labels_configured_order = ?k1"
    by (rule metricKeyOf_example) (simp_all add: config)
  have key2: "metricKeyOf ?c1 example_request Map.empty labels_other_order = ?k2"
    by (rule metricKeyOf_example) (simp_all add: config)
  have first: "store (collectMetrics parse_example example_counter example_request Map.empty
                 labels_configured_order) = [?k1 \<mapsto> example_series]"
    by (simp add: fun_eq_iff store_collectMetrics key1 labels_example config new)
  have step: "collectMetrics parse_example example_counter example_request Map.empty
                 labels_configured_order = ?c1"
    using first by (simp add: collectMetrics_def Let_def)
  have second: "store (collectMetrics parse_example ?c1 example_request Map.empty
                  labels_other_order) =
                [?k1 \<mapsto> example_series, ?k2 \<mapsto> example_series]"
    using keys
    by (simp add: fun_eq_iff store_collectMetrics key2 labels_example config new)
  show ?thesis
    by (simp only: observeAll.simps step second)
qed

text \<open>
  C2. The claim is that N observations of one label combination leave its series with
  the value N. The increment itself is unconditional (\<open>counter_step\<close>), but the series
  it lands on is found by the key: two observations of the same request whose labels are
  visited in the two orders leave two series with the same labels, each with the value
  1, and none with the value 2.
\<close>

theorem counter_split_over_two_series:
  "range_order (collectLabels (metricHeaders example_counter) example_request Map.empty)
     labels_configured_order \<and>
   range_order (collectLabels (metricHeaders example_counter) example_request Map.empty)
     labels_other_order \<and>
   store (observeAll parse_example example_counter
            [(example_request, Map.empty, labels_configured_order),
             (example_request, Map.empty, labels_other_order)]) =
     [''test_counter_X-User-ID_user123_X-Request-Size_1024'' \<mapsto> example_series,
      ''test_counter_X-Request-Size_1024_X-User-ID_user123'' \<mapsto> example_series]"
  using range_order_example store_after_two_observations by (simp only: simp_thms)

section \<open>The rendered text\<close>

lemma renderLoop_helpAdded:
  "renderLoop fmt True out visits = out @ concat (map (dataLine fmt) visits)"
proof (induction visits arbitrary: out)
  case Nil
  then show ?case by simp
next
  case (Cons v visits)
  obtain key metric lr where v: "v = ((key, metric), lr)"
    by (cases v) auto
  show ?case
    by (simp add: v Cons.IH dataLine_def)
qed

text \<open>
  The rendered text, whatever the store: the comment lines of the first series visited,
  then one data line for every series visited.
\<close>

lemma render_shape:
  "renderPrometheusFormat fmt visits =
     (case visits of
        [] \<Rightarrow> []
      | v # _ \<Rightarrow> commentLines (Name (snd (fst v))) (Type (snd (fst v))))
     @ concat (map (dataLine fmt) visits)"
proof (cases visits)
  case Nil
  then show ?thesis by (simp add: renderPrometheusFormat_def)
next
  case (Cons v rest)
  obtain key metric lr where v: "v = ((key, metric), lr)"
    by (cases v) auto
  show ?thesis
    by (simp add: Cons v renderPrometheusFormat_def renderLoop_helpAdded commentLines_def
        dataLine_def)
qed

text \<open>
  C4. The claim is that the rendered text has one data line per distinct series. The
  store that two observations of the request of \<open>TestMetrics\<close> leave when their labels
  are visited in the two orders holds that one series under two keys, and its rendering
  has the data line of the series twice, after one \<open># HELP\<close> and one \<open># TYPE\<close> line.
\<close>

theorem render_duplicate_series:
  "render_order
     (store (observeAll parse_example example_counter
               [(example_request, Map.empty, labels_configured_order),
                (example_request, Map.empty, labels_other_order)]))
     duplicate_visit \<and>
   renderPrometheusFormat format_example duplicate_visit =
     ''# HELP test_counter Custom metric based on HTTP headers'' @ newline
     @ ''# TYPE test_counter counter'' @ newline
     @ ''test_counter{X-User-ID='' @ dquote @ ''user123'' @ dquote
     @ '',X-Request-Size='' @ dquote @ ''1024'' @ dquote @ ''} 1'' @ newline
     @ ''test_counter{X-User-ID='' @ dquote @ ''user123'' @ dquote
     @ '',X-Request-Size='' @ dquote @ ''1024'' @ dquote @ ''} 1'' @ newline"
proof -
  have ro: "range_order (Labels example_series) labels_configured_order"
    by (simp add: range_order_def example_series_def labels_configured_order_def fun_eq_iff)
  have visit: "render_order
     [''test_counter_X-User-ID_user123_X-Request-Size_1024'' \<mapsto> example_series,
      ''test_counter_X-Request-Size_1024_X-User-ID_user123'' \<mapsto> example_series]
     duplicate_visit"
    using ro by (simp add: render_order_def range_order_def duplicate_visit_def fun_eq_iff)
  have nonempty: "Labels example_series \<noteq> Map.empty"
    by (simp add: example_series_def)
  have fields: "Name example_series = ''test_counter''" "Type example_series = ''counter''"
    "format_example (Value example_series) = ''1''"
    by (simp_all add: example_series_def format_example_def)
  have out: "renderPrometheusFormat format_example duplicate_visit =
     ''# HELP test_counter Custom metric based on HTTP headers'' @ newline
     @ ''# TYPE test_counter counter'' @ newline
     @ ''test_counter{X-User-ID='' @ dquote @ ''user123'' @ dquote
     @ '',X-Request-Size='' @ dquote @ ''1024'' @ dquote @ ''} 1'' @ newline
     @ ''test_counter{X-User-ID='' @ dquote @ ''user123'' @ dquote
     @ '',X-Request-Size='' @ dquote @ ''1024'' @ dquote @ ''} 1'' @ newline"
    using nonempty
    by (simp add: renderPrometheusFormat_def duplicate_visit_def metricLine_def fields
        labelPair_def labels_configured_order_def)
  show ?thesis
    using visit out by (simp only: store_after_two_observations simp_thms)
qed

section \<open>The order of the labels in a data line\<close>

lemma Join_labelPair_Cons:
  "Join (labelPair kv # map labelPair rest) '','' =
     fst kv @ ''='' @ dquote @ snd kv @ dquote
     @ (if rest = [] then [] else '','' @ Join (map labelPair rest) '','')"
  by (cases rest) (simp_all add: labelPair_def)

lemma spec_label_tail:
  "concat (map (\<lambda>kv'. '','' @ fst kv' @ ''='' @ dquote @ snd kv' @ dquote) rest) =
     (if rest = [] then [] else '','' @ Join (map labelPair rest) '','')"
  by (induction rest) (simp_all add: Join_labelPair_Cons)

lemma Join_spec_label_list: "Join (map labelPair lr) '','' = spec_label_list lr"
proof (cases lr)
  case Nil
  then show ?thesis by simp
next
  case (Cons kv rest)
  show ?thesis
    using spec_label_tail [of rest] by (simp add: Cons Join_labelPair_Cons)
qed

lemma takeWhile_before:
  "c \<notin> set k \<Longrightarrow> takeWhile (\<lambda>ch. ch \<noteq> c) (k @ c # s) = k"
  by (induction k) auto

lemma name_before_equals:
  assumes "k1 @ CHR ''='' # s1 = k2 @ CHR ''='' # s2"
    and "CHR ''='' \<notin> set k1" "CHR ''='' \<notin> set k2"
  shows "k1 = k2 \<and> s1 = s2"
proof -
  have "takeWhile (\<lambda>ch. ch \<noteq> CHR ''='') (k1 @ CHR ''='' # s1) = k1"
    "takeWhile (\<lambda>ch. ch \<noteq> CHR ''='') (k2 @ CHR ''='' # s2) = k2"
    using assms(2,3) by (simp_all add: takeWhile_before)
  with assms(1) have "k1 = k2" by simp
  with assms(1) show ?thesis by simp
qed

lemma label_list_determines_order:
  assumes "distinct (map fst lr1)" "distinct (map fst lr2)" "set lr1 = set lr2"
    and "\<forall>kv \<in> set lr1. CHR ''='' \<notin> set (fst kv)"
    and "Join (map labelPair lr1) '','' = Join (map labelPair lr2) '',''"
  shows "lr1 = lr2"
  using assms
proof (induction lr1 arbitrary: lr2)
  case Nil
  then show ?case by simp
next
  case (Cons kv1 r1)
  from Cons.prems(3) obtain kv2 r2 where lr2: "lr2 = kv2 # r2"
    by (cases lr2) auto
  have no_eq: "CHR ''='' \<notin> set (fst kv1)" "CHR ''='' \<notin> set (fst kv2)"
    using Cons.prems(3,4) by (auto simp: lr2)
  define t1 where "t1 = dquote @ snd kv1 @ dquote
             @ (if r1 = [] then [] else '','' @ Join (map labelPair r1) '','')"
  define t2 where "t2 = dquote @ snd kv2 @ dquote
             @ (if r2 = [] then [] else '','' @ Join (map labelPair r2) '','')"
  have "Join (labelPair kv1 # map labelPair r1) '','' = Join (labelPair kv2 # map labelPair r2) '',''"
    using Cons.prems(5) by (simp add: lr2)
  then have "fst kv1 @ CHR ''='' # t1 = fst kv2 @ CHR ''='' # t2"
    unfolding Join_labelPair_Cons t1_def t2_def by simp
  then have names: "fst kv1 = fst kv2" and tails: "t1 = t2"
    using name_before_equals [OF _ no_eq] by blast+
  have "kv1 \<in> set lr2"
    using Cons.prems(3) by auto
  then have heads: "kv1 = kv2"
    using names Cons.prems(2) by (auto simp: lr2 prod_eq_iff image_iff)
  have sets: "set r1 = set r2"
  proof -
    have "kv1 \<notin> set r1" "kv2 \<notin> set r2"
      using Cons.prems(1,2) by (auto simp: lr2 image_iff)
    with Cons.prems(3) heads show ?thesis
      by (auto simp: lr2)
  qed
  then have empties: "r1 = [] \<longleftrightarrow> r2 = []"
    by (metis set_empty)
  have joined: "Join (map labelPair r1) '','' = Join (map labelPair r2) '',''"
  proof (cases "r1 = []")
    case True
    with empties show ?thesis by simp
  next
    case False
    with empties have "r2 \<noteq> []" by simp
    with False tails heads show ?thesis
      by (simp add: t1_def t2_def)
  qed
  have "r1 = r2"
  proof (rule Cons.IH)
    show "distinct (map fst r1)" "distinct (map fst r2)"
      using Cons.prems(1,2) by (simp_all add: lr2)
    show "set r1 = set r2" by (rule sets)
    show "\<forall>kv \<in> set r1. CHR ''='' \<notin> set (fst kv)"
      using Cons.prems(4) by simp
    show "Join (map labelPair r1) '','' = Join (map labelPair r2) '',''"
      by (rule joined)
  qed
  with heads show ?case by (simp add: lr2)
qed

text \<open>
  C5, as the code has it. The labels of a data line are written in the order in which
  the runtime visits the label map of the series, not in configured header order: the
  name part of the line is the metric name followed by the visited labels, each as
  \<open>name="value"\<close>, separated by commas and enclosed in braces. Two renderings of one
  series whose label names hold no \<open>=\<close> therefore give the same line exactly when the
  runtime visits the labels in the same order.
\<close>

theorem label_order_is_range_order:
  assumes "range_order (Labels metric) lr1" "range_order (Labels metric) lr2"
    and "\<forall>k \<in> dom (Labels metric). CHR ''='' \<notin> set k"
  shows "metricLine metric lr1 = spec_series_name (Name metric) lr1 \<and>
         (metricLine metric lr1 = metricLine metric lr2 \<longleftrightarrow> lr1 = lr2)"
proof (intro conjI)
  have empty1: "Labels metric = Map.empty \<longleftrightarrow> lr1 = []"
    using assms(1) by (auto simp: range_order_def)
  have empty2: "Labels metric = Map.empty \<longleftrightarrow> lr2 = []"
    using assms(2) by (auto simp: range_order_def)
  show "metricLine metric lr1 = spec_series_name (Name metric) lr1"
    by (simp add: metricLine_def spec_series_name_def empty1 Join_spec_label_list)
  show "metricLine metric lr1 = metricLine metric lr2 \<longleftrightarrow> lr1 = lr2"
  proof
    assume same: "metricLine metric lr1 = metricLine metric lr2"
    show "lr1 = lr2"
    proof (cases "Labels metric = Map.empty")
      case True
      then show ?thesis using empty1 empty2 by simp
    next
      case False
      with same have joined: "Join (map labelPair lr1) '','' = Join (map labelPair lr2) '',''"
        by (simp add: metricLine_def)
      have "distinct (map fst lr1)" "distinct (map fst lr2)"
        using assms(1,2) by (simp_all add: range_order_def)
      moreover have "set lr1 = set lr2"
        using assms(1,2) by (simp add: range_order_set)
      moreover have "\<forall>kv \<in> set lr1. CHR ''='' \<notin> set (fst kv)"
      proof
        fix kv assume "kv \<in> set lr1"
        then have "kv \<in> Map.graph (Labels metric)"
          using assms(1) by (simp add: range_order_set)
        then have "fst kv \<in> dom (Labels metric)"
          by (rule graph_domD)
        then show "CHR ''='' \<notin> set (fst kv)"
          using assms(3) by simp
      qed
      ultimately show ?thesis
        using joined by (rule label_list_determines_order)
    qed
  next
    assume "lr1 = lr2"
    then show "metricLine metric lr1 = metricLine metric lr2" by simp
  qed
qed

theorem label_order_is_range_order_witness:
  "range_order (Labels example_series) labels_other_order \<and>
   range_order (Labels example_series) labels_configured_order \<and>
   CHR ''='' \<notin> set ''X-User-ID'' \<and> CHR ''='' \<notin> set ''X-Request-Size'' \<and>
   metricLine example_series labels_other_order =
     ''test_counter{X-Request-Size='' @ dquote @ ''1024'' @ dquote
     @ '',X-User-ID='' @ dquote @ ''user123'' @ dquote @ ''}'' \<and>
   metricLine example_series labels_other_order \<noteq>
     metricLine example_series labels_configured_order"
proof -
  have ro: "range_order (Labels example_series) labels_other_order"
    "range_order (Labels example_series) labels_configured_order"
    by (simp_all add: range_order_def example_series_def labels_configured_order_def
        labels_other_order_def fun_eq_iff)
  have names: "\<forall>k \<in> dom (Labels example_series). CHR ''='' \<notin> set k"
    by (simp add: example_series_def)
  have differ: "labels_other_order \<noteq> labels_configured_order"
    by (simp add: labels_configured_order_def labels_other_order_def)
  have spec: "spec_series_name (Name example_series) labels_other_order =
     ''test_counter{X-Request-Size='' @ dquote @ ''1024'' @ dquote
     @ '',X-User-ID='' @ dquote @ ''user123'' @ dquote @ ''}''"
    by (simp add: spec_series_name_def labels_other_order_def example_series_def)
  note both = label_order_is_range_order [OF ro names]
  have line: "metricLine example_series labels_other_order =
          spec_series_name (Name example_series) labels_other_order"
    using both by (rule conjunct1)
  have "metricLine example_series labels_other_order \<noteq>
          metricLine example_series labels_configured_order"
    using conjunct2 [OF both] differ by simp
  then show ?thesis
    using ro line spec by simp
qed

text \<open>
  The claim C5 as stated asks for the labels in configured header order and for equal
  texts from two renderings of one store. The store below holds one series with two
  labels; both visits are renderings of it, and the texts differ.
\<close>

theorem render_label_order_counterexample:
  "render_order
     [''test_counter_X-User-ID_user123_X-Request-Size_1024'' \<mapsto> example_series]
     [((''test_counter_X-User-ID_user123_X-Request-Size_1024'', example_series),
       labels_configured_order)] \<and>
   render_order
     [''test_counter_X-User-ID_user123_X-Request-Size_1024'' \<mapsto> example_series]
     [((''test_counter_X-User-ID_user123_X-Request-Size_1024'', example_series),
       labels_other_order)] \<and>
   renderPrometheusFormat format_example
     [((''test_counter_X-User-ID_user123_X-Request-Size_1024'', example_series),
       labels_configured_order)] =
     ''# HELP test_counter Custom metric based on HTTP headers'' @ newline
     @ ''# TYPE test_counter counter'' @ newline
     @ ''test_counter{X-User-ID='' @ dquote @ ''user123'' @ dquote
     @ '',X-Request-Size='' @ dquote @ ''1024'' @ dquote @ ''} 1'' @ newline \<and>
   renderPrometheusFormat format_example
     [((''test_counter_X-User-ID_user123_X-Request-Size_1024'', example_series),
       labels_other_order)] =
     ''# HELP test_counter Custom metric based on HTTP headers'' @ newline
     @ ''# TYPE test_counter counter'' @ newline
     @ ''test_counter{X-Request-Size='' @ dquote @ ''1024'' @ dquote
     @ '',X-User-ID='' @ dquote @ ''user123'' @ dquote @ ''} 1'' @ newline"
proof -
  have ro: "range_order (Labels example_series) labels_configured_order"
    "range_order (Labels example_series) labels_other_order"
    by (simp_all add: range_order_def example_series_def labels_configured_order_def
        labels_other_order_def fun_eq_iff)
  have nonempty: "Labels example_series \<noteq> Map.empty"
    by (simp add: example_series_def)
  have fields: "Name example_series = ''test_counter''" "Type example_series = ''counter''"
    "format_example (Value example_series) = ''1''"
    by (simp_all add: example_series_def format_example_def)
  show ?thesis
    using ro nonempty
    by (simp add: render_order_def range_order_def renderPrometheusFormat_def metricLine_def
        fields labelPair_def labels_configured_order_def labels_other_order_def)
qed

section \<open>Construction and its failures\<close>

lemma New_empty_headers:
  "MetricHeaders config = [] \<Longrightarrow> New listen config nm = Inl MetricHeadersEmpty"
  by (simp add: New_def)

lemma New_port_in_use:
  assumes "MetricHeaders config \<noteq> []" "\<not> listen (MetricsPort config)"
  shows "New listen config nm = Inl (StartMetricsServerFailed (PortInUse (MetricsPort config)))"
  using assms by (simp add: New_def startMetricsServer_def)

lemma New_success:
  assumes "MetricHeaders config \<noteq> []" "listen (MetricsPort config)"
  shows "New listen config nm =
           Inr \<lparr>metricHeaders = MetricHeaders config, metricName = MetricName config,
                metricType = MetricType config, metricsPort = MetricsPort config,
                name = nm, store = Map.empty\<rparr>"
  using assms by (simp add: New_def startMetricsServer_def)

text \<open>
  What \<open>New\<close> does, for every configuration: it fails when the header list is empty or
  the port cannot be bound, and in no other case. The metric kind is not looked at.
\<close>

lemma New_fails_iff:
  "isl (New listen config nm) \<longleftrightarrow>
     MetricHeaders config = [] \<or> \<not> listen (MetricsPort config)"
  by (cases "MetricHeaders config = []"; cases "listen (MetricsPort config)")
    (simp_all add: New_empty_headers New_port_in_use New_success)

text \<open>
  C6. The claim is that construction fails when the configured kind is not one of
  \<open>counter\<close>, \<open>gauge\<close> and \<open>histogram\<close>. \<open>New\<close> never looks at the kind: with one header, a
  port that can be bound and the kind \<open>summary\<close> it returns a plugin, and an exchange
  observed by that plugin leaves a series of kind \<open>summary\<close> whose value stays 0, since
  the \<open>switch\<close> of \<open>collectMetrics\<close> has no case for it.
\<close>

theorem New_accepts_unsupported_kind:
  "MetricType summary_config \<noteq> MetricTypeCounter \<and>
   MetricType summary_config \<noteq> MetricTypeGauge \<and>
   MetricType summary_config \<noteq> MetricTypeHistogram \<and>
   New (\<lambda>port. True) summary_config ''plugin'' =
     Inr \<lparr>metricHeaders = [''X-User-ID''], metricName = ''plugin_custom_requests'',
          metricType = ''summary'', metricsPort = 8081, name = ''plugin'',
          store = (Map.empty :: real MetricsStore)\<rparr> \<and>
   store
     (collectMetrics parse_example
        \<lparr>metricHeaders = [''X-User-ID''], metricName = ''plugin_custom_requests'',
         metricType = ''summary'', metricsPort = 8081, name = ''plugin'',
         store = (Map.empty :: real MetricsStore)\<rparr>
        [''X-User-ID'' \<mapsto> [''user123'']] Map.empty [(''X-User-ID'', ''user123'')]) =
     [''plugin_custom_requests_X-User-ID_user123'' \<mapsto>
        \<lparr>Name = ''plugin_custom_requests'', Type = ''summary'', Value = 0,
         Labels = [''X-User-ID'' \<mapsto> ''user123'']\<rparr>]"
proof -
  let ?plugin = "\<lparr>metricHeaders = [''X-User-ID''], metricName = ''plugin_custom_requests'',
         metricType = ''summary'', metricsPort = 8081, name = ''plugin'',
         store = (Map.empty :: real MetricsStore)\<rparr>"
  let ?req = "[''X-User-ID'' \<mapsto> [''user123'']] :: Header"
  have kinds: "MetricType summary_config \<noteq> MetricTypeCounter"
    "MetricType summary_config \<noteq> MetricTypeGauge"
    "MetricType summary_config \<noteq> MetricTypeHistogram"
    by (simp_all add: summary_config_def MetricTypeCounter_def MetricTypeGauge_def
        MetricTypeHistogram_def)
  have new: "New (\<lambda>port. True) summary_config ''plugin'' = Inr ?plugin"
    by (simp add: New_def startMetricsServer_def summary_config_def CreateConfig_def)
  have labels: "collectLabels [''X-User-ID''] ?req Map.empty =
                [''X-User-ID'' \<mapsto> ''user123'']"
    by (simp add: collectLabels_def headerLabel_def Get_def)
  have key: "metricKeyOf ?plugin ?req Map.empty [(''X-User-ID'', ''user123'')] =
             ''plugin_custom_requests_X-User-ID_user123''"
    by (simp add: metricKeyOf_def labels createMetricKey_def)
  have unchanged: "updateValue parse_example ?plugin ?req Map.empty m = m" for m
    by (simp add: updateValue_def MetricTypeCounter_def MetricTypeGauge_def
        MetricTypeHistogram_def)
  have observed: "store (collectMetrics parse_example ?plugin ?req Map.empty
                    [(''X-User-ID'', ''user123'')]) =
     [''plugin_custom_requests_X-User-ID_user123'' \<mapsto>
        \<lparr>Name = ''plugin_custom_requests'', Type = ''summary'', Value = 0,
         Labels = [''X-User-ID'' \<mapsto> ''user123'']\<rparr>]"
    by (simp add: fun_eq_iff store_collectMetrics key unchanged labels)
  show ?thesis
    using kinds new observed by (simp only: simp_thms)
qed

end
